theory Spec2Isabelle
  imports Complex_Main
begin

section \<open>The CodeBERT embedding service\<close>

text \<open>
  A shallow embedding of \<^verbatim>\<open>services/codebert/main.py\<close>. The service keeps three
  module globals (\<^verbatim>\<open>model\<close>, \<^verbatim>\<open>tokenizer\<close>, \<^verbatim>\<open>device\<close>), fills them once in
  \<^verbatim>\<open>load_model\<close> and reads them in every handler. The globals are a record that each
  function takes as an argument; no handler assigns to them, so no handler returns them.

  The tokenizer and the encoder are objects of the \<^verbatim>\<open>transformers\<close> library. They are
  values stored in the globals: functions that return a result or raise. Tensor elements
  are 32-bit floats; their type is left as the type variable \<open>'a\<close>, and the one float
  operation the service performs, the mean of a run of floats inside
  \<^verbatim>\<open>Tensor.mean(dim=1)\<close>, is the parameter \<open>mean\<close> of every function that pools. The
  definitions assume nothing about rounding; a theorem that speaks of the value of the
  mean reads floats as real numbers and says so.
\<close>

subsection \<open>Exceptions and handler results\<close>

text \<open>
  The exceptions that reach an \<^verbatim>\<open>except Exception\<close> clause of the service: the
  \<^verbatim>\<open>RuntimeError\<close> it raises itself, the \<^verbatim>\<open>IndexError\<close> of indexing a tensor, and
  whatever the library raises (\<open>LibraryError\<close>, with its \<^verbatim>\<open>str()\<close>). All of them are
  subclasses of \<^verbatim>\<open>Exception\<close>.
\<close>

datatype py_exception =
    RuntimeError string
  | IndexError string
  | LibraryError string

fun str_exception :: "py_exception \<Rightarrow> string" where
  "str_exception (RuntimeError msg) = msg"
| "str_exception (IndexError msg) = msg"
| "str_exception (LibraryError msg) = msg"

text \<open>
  What leaves a handler when it does not return: an \<^verbatim>\<open>HTTPException\<close> with its status
  code and detail, which the framework turns into that HTTP response, or any other
  exception, which the handler did not catch.
\<close>

datatype http_error =
    HTTPException int string
  | Unhandled py_exception

subsection \<open>Tensors\<close>

text \<open>
  A tensor is its shape and its elements by index. \<open>tensor3\<close> is the encoder's last
  hidden state (batch, sequence position, hidden unit); \<open>tensor2\<close> is what
  \<^verbatim>\<open>mean(dim=1)\<close> leaves (batch, hidden unit).
\<close>

record 'a tensor3 =
  size0 :: nat
  size1 :: nat
  size2 :: nat
  item3 :: "nat \<Rightarrow> nat \<Rightarrow> nat \<Rightarrow> 'a"

record 'a tensor2 =
  nrows :: nat
  ncols :: nat
  item2 :: "nat \<Rightarrow> nat \<Rightarrow> 'a"

text \<open>\<^verbatim>\<open>t.mean(dim=1)\<close>: each output element reduces one run along the sequence axis.\<close>

definition mean_dim1 :: "('a list \<Rightarrow> 'a) \<Rightarrow> 'a tensor3 \<Rightarrow> 'a tensor2" where
  "mean_dim1 mean t =
     \<lparr>nrows = size0 t, ncols = size2 t,
      item2 = (\<lambda>b h. mean (map (\<lambda>s. item3 t b s h) [0..<size1 t]))\<rparr>"

text \<open>\<^verbatim>\<open>t[b].tolist()\<close> for a row that exists, and \<^verbatim>\<open>t.tolist()\<close>.\<close>

definition row_tolist :: "'a tensor2 \<Rightarrow> nat \<Rightarrow> 'a list" where
  "row_tolist t b = map (item2 t b) [0..<ncols t]"

definition tolist :: "'a tensor2 \<Rightarrow> 'a list list" where
  "tolist t = map (row_tolist t) [0..<nrows t]"

subsection \<open>The library objects and the globals\<close>

text \<open>
  The tokenizer's result holds \<^verbatim>\<open>input_ids\<close> and \<^verbatim>\<open>attention_mask\<close>, one row per text.
  A call \<^verbatim>\<open>tokenizer(text, ...)\<close> with a single string encodes a batch of that one text,
  so the tokenizer takes a list of texts here and \<^verbatim>\<open>generate_embedding\<close> passes
  \<open>[text]\<close>. The keyword arguments \<^verbatim>\<open>return_tensors\<close>, \<^verbatim>\<open>padding\<close> and \<^verbatim>\<open>truncation\<close>
  are the same constants at both call sites and are part of the function; \<^verbatim>\<open>max_length\<close>
  is its second argument (\<open>None\<close> is Python's \<^verbatim>\<open>None\<close>).
\<close>

record encoding =
  input_ids :: "int list list"
  attention_mask :: "int list list"

record 'a model_output =
  last_hidden_state :: "'a tensor3"

type_synonym tokenizer_fn = "string list \<Rightarrow> int option \<Rightarrow> py_exception + encoding"

type_synonym 'a model_fn = "encoding \<Rightarrow> py_exception + 'a model_output"

record 'a globals =
  model :: "'a model_fn option"
  tokenizer :: "tokenizer_fn option"
  device :: "string option"

subsection \<open>Requests and responses\<close>

record EmbeddingRequest =
  "text" :: string
  max_length :: "int option"

record BatchEmbeddingRequest =
  texts :: "string list"
  max_length :: "int option"

record 'a EmbeddingResponse =
  embedding :: "'a list"
  dimension :: int

record 'a BatchEmbeddingResponse =
  embeddings :: "'a list list"
  dimension :: int
  count :: int

record HealthResponse =
  status :: string
  model :: string
  device :: string
  dimension :: int

record RootResponse =
  service :: string
  version :: string
  endpoints :: "(string \<times> string) list"

subsection \<open>Inference\<close>

text \<open>
  \<^verbatim>\<open>generate_embedding\<close>. Moving the inputs to the device (\<^verbatim>\<open>v.to(device)\<close>) and
  \<^verbatim>\<open>.cpu()\<close> do not change a tensor's shape or elements. \<^verbatim>\<open>embeddings[0]\<close> raises
  \<^verbatim>\<open>IndexError\<close> on a tensor with no row.
\<close>

definition generate_embedding ::
  "('a list \<Rightarrow> 'a) \<Rightarrow> 'a globals \<Rightarrow> string \<Rightarrow> int option \<Rightarrow> py_exception + 'a list" where
  "generate_embedding mean g txt max_len =
     (case (globals.model g, tokenizer g) of
        (Some m, Some tok) \<Rightarrow>
          (case tok [txt] max_len of
             Inl e \<Rightarrow> Inl e
           | Inr inputs \<Rightarrow>
               (case m inputs of
                  Inl e \<Rightarrow> Inl e
                | Inr outputs \<Rightarrow>
                    (let embeddings = mean_dim1 mean (last_hidden_state outputs)
                     in if nrows embeddings = 0
                        then Inl (IndexError ''index 0 is out of bounds for dimension 0 with size 0'')
                        else Inr (row_tolist embeddings 0))))
      | _ \<Rightarrow> Inl (RuntimeError ''Model not loaded''))"

text \<open>\<^verbatim>\<open>generate_batch_embeddings\<close>.\<close>

definition generate_batch_embeddings ::
  "('a list \<Rightarrow> 'a) \<Rightarrow> 'a globals \<Rightarrow> string list \<Rightarrow> int option \<Rightarrow> py_exception + 'a list list" where
  "generate_batch_embeddings mean g txts max_len =
     (case (globals.model g, tokenizer g) of
        (Some m, Some tok) \<Rightarrow>
          (case tok txts max_len of
             Inl e \<Rightarrow> Inl e
           | Inr inputs \<Rightarrow>
               (case m inputs of
                  Inl e \<Rightarrow> Inl e
                | Inr outputs \<Rightarrow>
                    Inr (tolist (mean_dim1 mean (last_hidden_state outputs)))))
      | _ \<Rightarrow> Inl (RuntimeError ''Model not loaded''))"

subsection \<open>The handlers\<close>

text \<open>
  \<^verbatim>\<open>health_check\<close> has no \<^verbatim>\<open>try\<close>: an exception of \<^verbatim>\<open>generate_embedding\<close> leaves it
  as it is. The probe call uses the default \<^verbatim>\<open>max_length=512\<close>. \<^verbatim>\<open>str(device)\<close> of a
  \<^verbatim>\<open>torch.device\<close> is its name, and \<^verbatim>\<open>'None'\<close> when the global was never set.
\<close>

definition str_device :: "string option \<Rightarrow> string" where
  "str_device d = (case d of None \<Rightarrow> ''None'' | Some name \<Rightarrow> name)"

definition health_check :: "('a list \<Rightarrow> 'a) \<Rightarrow> 'a globals \<Rightarrow> http_error + HealthResponse" where
  "health_check mean g =
     (if globals.model g = None then Inl (HTTPException 503 ''Model not loaded'')
      else
        (case generate_embedding mean g ''test'' (Some 512) of
           Inl e \<Rightarrow> Inl (Unhandled e)
         | Inr test_embedding \<Rightarrow>
             Inr \<lparr>status = ''healthy'',
                  model = ''microsoft/codebert-base'',
                  device = str_device (globals.device g),
                  dimension = int (length test_embedding)\<rparr>))"

definition embed_text ::
  "('a list \<Rightarrow> 'a) \<Rightarrow> 'a globals \<Rightarrow> EmbeddingRequest \<Rightarrow> http_error + 'a EmbeddingResponse" where
  "embed_text mean g request =
     (case generate_embedding mean g (text request) (EmbeddingRequest.max_length request) of
        Inr emb \<Rightarrow> Inr \<lparr>embedding = emb, dimension = int (length emb)\<rparr>
      | Inl e \<Rightarrow> Inl (HTTPException 500 (str_exception e)))"

definition embed_batch ::
  "('a list \<Rightarrow> 'a) \<Rightarrow> 'a globals \<Rightarrow> BatchEmbeddingRequest \<Rightarrow> http_error + 'a BatchEmbeddingResponse" where
  "embed_batch mean g request =
     (if length (texts request) = 0
      then Inr \<lparr>embeddings = [], dimension = 768, count = 0\<rparr>
      else
        (case generate_batch_embeddings mean g (texts request)
                (BatchEmbeddingRequest.max_length request) of
           Inr embs \<Rightarrow>
             Inr \<lparr>embeddings = embs,
                  dimension = (case embs of [] \<Rightarrow> 768 | e0 # _ \<Rightarrow> int (length e0)),
                  count = int (length embs)\<rparr>
         | Inl e \<Rightarrow> Inl (HTTPException 500 (str_exception e))))"

definition root :: RootResponse where
  "root =
     \<lparr>service = ''CodeBERT Embedding Service'',
      version = ''1.0.0'',
      endpoints = [(''health'', ''/health''), (''embed'', ''/embed''),
                   (''embed_batch'', ''/embed/batch'')]\<rparr>"

subsection \<open>Routing\<close>

text \<open>
  The route table the decorators build: \<^verbatim>\<open>GET /\<close>, \<^verbatim>\<open>GET /health\<close>, \<^verbatim>\<open>POST /embed\<close> and
  \<^verbatim>\<open>POST /embed/batch\<close>. \<^verbatim>\<open>root\<close> takes no argument and reads no global.
\<close>

datatype request =
    GET_root
  | GET_health
  | POST_embed EmbeddingRequest
  | POST_embed_batch BatchEmbeddingRequest

datatype 'a response =
    Root_response RootResponse
  | Health_response HealthResponse
  | Embedding_response "'a EmbeddingResponse"
  | Batch_response "'a BatchEmbeddingResponse"

definition app :: "('a list \<Rightarrow> 'a) \<Rightarrow> 'a globals \<Rightarrow> request \<Rightarrow> http_error + 'a response" where
  "app mean g req =
     (case req of
        GET_root \<Rightarrow> Inr (Root_response root)
      | GET_health \<Rightarrow> map_sum id Health_response (health_check mean g)
      | POST_embed r \<Rightarrow> map_sum id Embedding_response (embed_text mean g r)
      | POST_embed_batch r \<Rightarrow> map_sum id Batch_response (embed_batch mean g r))"

subsection \<open>Start-up\<close>

text \<open>
  \<^verbatim>\<open>load_model\<close> reads the environment, probes the accelerators and asks the library
  for the tokenizer and the model of that name; these are the fields of \<open>platform\<close>.
  The globals are assigned one by one, so a failed load leaves the ones assigned before
  the failure; the first component of the result is the exception, if any.
  \<^verbatim>\<open>model.to(device)\<close> and \<^verbatim>\<open>model.eval()\<close> leave the model the function it is.
  The module starts with all three globals \<^verbatim>\<open>None\<close>.
\<close>

record 'a platform =
  environ :: "string \<Rightarrow> string option"
  cuda_is_available :: bool
  mps_is_available :: bool
  AutoTokenizer_from_pretrained :: "string \<Rightarrow> py_exception + tokenizer_fn"
  AutoModel_from_pretrained :: "string \<Rightarrow> py_exception + 'a model_fn"

definition initial_globals :: "'a globals" where
  "initial_globals = \<lparr>globals.model = None, tokenizer = None, globals.device = None\<rparr>"

definition getenv :: "'a platform \<Rightarrow> string \<Rightarrow> string \<Rightarrow> string" where
  "getenv p key dflt = (case environ p key of None \<Rightarrow> dflt | Some v \<Rightarrow> v)"

definition load_model :: "'a platform \<Rightarrow> 'a globals \<Rightarrow> py_exception option \<times> 'a globals" where
  "load_model p g =
     (let model_name = getenv p ''MODEL_NAME'' ''microsoft/codebert-base'';
          g1 = g\<lparr>globals.device :=
                  Some (if cuda_is_available p then ''cuda''
                        else if mps_is_available p then ''mps''
                        else ''cpu'')\<rparr>
      in case AutoTokenizer_from_pretrained p model_name of
           Inl e \<Rightarrow> (Some e, g1)
         | Inr tok \<Rightarrow>
             (let g2 = g1\<lparr>tokenizer := Some tok\<rparr>
              in case AutoModel_from_pretrained p model_name of
                   Inl e \<Rightarrow> (Some e, g2)
                 | Inr m \<Rightarrow> (None, g2\<lparr>globals.model := Some m\<rparr>)))"

subsection \<open>A small tokenizer and encoder for concrete runs\<close>

text \<open>
  Stand-ins for the library objects, used only to run the service on concrete requests.
  The tokenizer writes one token per character between the start token 0 and the end
  token 2, truncates the characters so that the row fits \<^verbatim>\<open>max_length\<close> (8 when it is
  \<^verbatim>\<open>None\<close>), pads every row with token 1 to the longest row of the batch, and raises when
  \<^verbatim>\<open>max_length\<close> leaves no room for the two special tokens. The encoder has 8
  positions and hidden size 2: at each position it outputs the token id and the attention
  mask bit, so a position's output does not depend on the padding that follows it. It
  raises on a row longer than its positions. Floats are real numbers here.
\<close>

definition real_mean :: "real list \<Rightarrow> real" where
  "real_mean xs = sum_list xs / real (length xs)"

definition example_tokenizer :: tokenizer_fn where
  "example_tokenizer txts max_len =
     (let limit = (case max_len of None \<Rightarrow> 8 | Some n \<Rightarrow> nat n)
      in if limit < 2
         then Inl (LibraryError ''max_length is too low for the special tokens'')
         else
           (let rows = map (\<lambda>t. 0 # take (limit - 2) (map of_char t) @ [2]) txts;
                width = fold max (map length rows) 0
            in Inr \<lparr>input_ids = map (\<lambda>r. r @ replicate (width - length r) 1) rows,
                    attention_mask =
                      map (\<lambda>r. replicate (length r) 1 @ replicate (width - length r) 0) rows\<rparr>))"

definition example_model :: "real model_fn" where
  "example_model enc =
     (if list_ex (\<lambda>r. 8 < length r) (input_ids enc)
      then Inl (IndexError ''index out of range in self'')
      else
        Inr \<lparr>last_hidden_state =
               \<lparr>size0 = length (input_ids enc),
                size1 = (case input_ids enc of [] \<Rightarrow> 0 | r # _ \<Rightarrow> length r),
                size2 = 2,
                item3 = (\<lambda>b s h. if h = 0 then real_of_int (input_ids enc ! b ! s)
                                  else real_of_int (attention_mask enc ! b ! s))\<rparr>\<rparr>)"

definition example_platform :: "real platform" where
  "example_platform =
     \<lparr>environ = [''MODEL_NAME'' \<mapsto> ''example/tiny-encoder''],
      cuda_is_available = False,
      mps_is_available = False,
      AutoTokenizer_from_pretrained =
        (\<lambda>name. if name = ''example/tiny-encoder'' then Inr example_tokenizer
                else Inl (LibraryError ''not a model identifier'')),
      AutoModel_from_pretrained =
        (\<lambda>name. if name = ''example/tiny-encoder'' then Inr example_model
                else Inl (LibraryError ''not a model identifier''))\<rparr>"

definition example_globals :: "real globals" where
  "example_globals =
     \<lparr>globals.model = Some example_model, tokenizer = Some example_tokenizer,
      globals.device = Some ''cpu''\<rparr>"

section \<open>Pooling and the inference functions\<close>

lemma row_tolist_mean_dim1:
  "row_tolist (mean_dim1 mean t) b =
     map (\<lambda>h. mean (map (\<lambda>s. item3 t b s h) [0..<size1 t])) [0..<size2 t]"
  by (simp add: row_tolist_def mean_dim1_def)

lemma tolist_mean_dim1:
  "tolist (mean_dim1 mean t) =
     map (\<lambda>b. map (\<lambda>h. mean (map (\<lambda>s. item3 t b s h) [0..<size1 t])) [0..<size2 t])
       [0..<size0 t]"
  by (simp add: tolist_def mean_dim1_def row_tolist_def)

lemma generate_embedding_loaded:
  assumes "globals.model g = Some m" and "tokenizer g = Some tok"
    and "tok [txt] max_len = Inr enc" and "m enc = Inr out"
    and "0 < size0 (last_hidden_state out)"
  shows "generate_embedding mean g txt max_len =
           Inr (row_tolist (mean_dim1 mean (last_hidden_state out)) 0)"
proof -
  have "nrows (mean_dim1 mean (last_hidden_state out)) \<noteq> 0"
    using assms(5) by (simp add: mean_dim1_def)
  with assms(1-4) show ?thesis
    by (simp add: generate_embedding_def Let_def)
qed

lemma generate_batch_embeddings_loaded:
  assumes "globals.model g = Some m" and "tokenizer g = Some tok"
    and "tok txts max_len = Inr enc" and "m enc = Inr out"
  shows "generate_batch_embeddings mean g txts max_len =
           Inr (tolist (mean_dim1 mean (last_hidden_state out)))"
  using assms by (simp add: generate_batch_embeddings_def)

text \<open>The arithmetic mean of the real numbers \<open>f 0, \<dots>, f (n - 1)\<close>.\<close>

lemma real_mean_upt:
  "real_mean (map f [0..<n]) = (\<Sum>s = 0..<n. f s) / real n"
  by (simp add: real_mean_def interv_sum_list_conv_sum_set_nat)

section \<open>The stand-ins as library objects\<close>

lemma fold_max_ge_init: "(a::nat) \<le> fold max xs a"
proof (induction xs arbitrary: a)
  case Nil
  show ?case by simp
next
  case (Cons x xs)
  have "a \<le> max x a" by simp
  also have "max x a \<le> fold max xs (max x a)" by (rule Cons.IH)
  finally show ?case by simp
qed

lemma fold_max_ge_member: "x \<in> set xs \<Longrightarrow> (x::nat) \<le> fold max xs a"
proof (induction xs arbitrary: a)
  case Nil
  then show ?case by simp
next
  case (Cons y ys)
  show ?case
  proof (cases "x = y")
    case True
    have "x \<le> max y a" using True by simp
    also have "max y a \<le> fold max ys (max y a)" by (rule fold_max_ge_init)
    finally show ?thesis by simp
  next
    case False
    with Cons.prems have "x \<in> set ys" by simp
    then show ?thesis using Cons.IH by simp
  qed
qed

text \<open>The stand-in tokenizer encodes one row per text.\<close>

lemma example_tokenizer_rows:
  "\<forall>txts ml e. example_tokenizer txts ml = Inr e \<longrightarrow> length (input_ids e) = length txts"
  by (auto simp: example_tokenizer_def Let_def split: if_splits)

text \<open>The stand-in encoder returns one hidden row per input row, of hidden size 2.\<close>

lemma example_model_shape:
  "\<forall>e out. example_model e = Inr out \<longrightarrow>
     size0 (last_hidden_state out) = length (input_ids e) \<and> size2 (last_hidden_state out) = 2"
  by (auto simp: example_model_def split: if_splits)

text \<open>The equations that run the stand-ins on a concrete request.\<close>

lemmas example_defs = example_globals_def example_tokenizer_def example_model_def
  Let_def mean_dim1_def row_tolist_def tolist_def real_mean_def numeral_2_eq_2

section \<open>The single-text endpoint\<close>

text \<open>
  Claim C1, as stated: for every non-empty text and every \<^verbatim>\<open>max_length\<close> from 1 to the
  model's position count, \<^verbatim>\<open>POST /embed\<close> returns a vector of the model's hidden size.
  The handler hands \<^verbatim>\<open>max_length\<close> to the tokenizer unchecked and turns whatever the
  library raises into status 500. With the stand-in objects loaded (8 positions), the text
  \<open>''a''\<close> and \<^verbatim>\<open>max_length = 1\<close> are inside the stated bounds, the tokenizer raises
  because 1 leaves no room for its two special tokens, and the call returns no vector.
\<close>

theorem embed_text_fails_at_max_length_1:
  "''a'' \<noteq> [] \<and> (1::int) \<le> 1 \<and> (1::int) \<le> 8
   \<and> embed_text real_mean example_globals \<lparr>text = ''a'', max_length = Some 1\<rparr> =
       Inl (HTTPException 500 ''max_length is too low for the special tokens'')"
  by (simp add: embed_text_def generate_embedding_def example_globals_def example_tokenizer_def)

text \<open>
  Claim C1, amended. Let the loaded tokenizer encode one row per text, and let the loaded
  model have the fixed hidden size \<open>H\<close>: every hidden state it returns has one row per
  input row and \<open>H\<close> hidden units. Then for every text and every \<^verbatim>\<open>max_length\<close> for which
  tokenization and the forward pass return, with at least one sequence position,
  \<^verbatim>\<open>POST /embed\<close> returns a vector of length \<open>H\<close> whose \<open>h\<close>-th element is the arithmetic
  mean of hidden unit \<open>h\<close> of the last hidden state over the sequence-position axis, and
  the response's \<^verbatim>\<open>dimension\<close> is the length of that vector. Floats are read as real
  numbers and \<^verbatim>\<open>Tensor.mean\<close> as their arithmetic mean.
\<close>

theorem embed_text_arithmetic_mean:
  assumes "globals.model g = Some m" and "tokenizer g = Some tok"
    and one_row_per_text:
      "\<forall>txts ml e. tok txts ml = Inr e \<longrightarrow> length (input_ids e) = length txts"
    and fixed_shape:
      "\<forall>e out. m e = Inr out \<longrightarrow>
         size0 (last_hidden_state out) = length (input_ids e)
         \<and> size2 (last_hidden_state out) = H"
    and "tok [text r] (EmbeddingRequest.max_length r) = Inr enc"
    and "m enc = Inr out"
    and "0 < size1 (last_hidden_state out)"
  shows "\<exists>resp. embed_text real_mean g r = Inr resp
           \<and> length (embedding resp) = H
           \<and> embedding resp =
               map (\<lambda>h. (\<Sum>s = 0..<size1 (last_hidden_state out).
                             item3 (last_hidden_state out) 0 s h)
                         / real (size1 (last_hidden_state out))) [0..<H]
           \<and> EmbeddingResponse.dimension resp = int (length (embedding resp))"
proof -
  have "length (input_ids enc) = 1"
    using one_row_per_text assms(5) by fastforce
  with fixed_shape assms(6)
  have rows: "0 < size0 (last_hidden_state out)" and H: "size2 (last_hidden_state out) = H"
    by simp_all
  have "generate_embedding real_mean g (text r) (EmbeddingRequest.max_length r) =
          Inr (row_tolist (mean_dim1 real_mean (last_hidden_state out)) 0)"
    by (rule generate_embedding_loaded [OF assms(1,2,5,6) rows])
  then show ?thesis
    using H by (simp add: embed_text_def row_tolist_mean_dim1 real_mean_upt)
qed

text \<open>
  The stand-in tokenizer encodes \<open>''a''\<close> as the three tokens 0, 97, 2; the stand-in
  encoder returns one row of three positions; the pooled vector is (99/3, 3/3).
\<close>

theorem embed_text_arithmetic_mean_witness:
  "embed_text real_mean example_globals \<lparr>text = ''a'', max_length = Some 512\<rparr> =
     Inr \<lparr>embedding = [33, 1], dimension = 2\<rparr>"
proof -
  let ?r = "\<lparr>text = ''a'', max_length = Some 512\<rparr>"
  let ?enc = "\<lparr>input_ids = [[0, 97, 2]], attention_mask = [[1, 1, 1]]\<rparr>"
  let ?out = "\<lparr>last_hidden_state =
      \<lparr>size0 = 1, size1 = 3, size2 = 2,
       item3 = (\<lambda>b s h. if h = 0 then real_of_int (input_ids ?enc ! b ! s)
                        else real_of_int (attention_mask ?enc ! b ! s))\<rparr>\<rparr>"
  have h1: "globals.model example_globals = Some example_model"
    and h2: "tokenizer example_globals = Some example_tokenizer"
    by (simp_all add: example_globals_def)
  have h3: "example_tokenizer [text ?r] (EmbeddingRequest.max_length ?r) = Inr ?enc"
    by (simp add: example_tokenizer_def Let_def)
  have h4: "example_model ?enc = Inr ?out"
    by (simp add: example_model_def)
  have h5: "0 < size1 (last_hidden_state ?out)"
    by simp
  from embed_text_arithmetic_mean
    [OF h1 h2 example_tokenizer_rows example_model_shape h3 h4 h5]
  obtain resp where "embed_text real_mean example_globals ?r = Inr resp"
    and "embedding resp = [33, 1]" and "EmbeddingResponse.dimension resp = 2"
    by (auto simp: numeral_2_eq_2 numeral_3_eq_3)
  then show ?thesis by simp
qed

section \<open>The batch endpoint\<close>

text \<open>
  Claim C2, as stated: for every ordered list of \<open>N \<ge> 1\<close> texts, \<^verbatim>\<open>POST /embed/batch\<close>
  returns exactly \<open>N\<close> vectors. The handler hands the texts and \<^verbatim>\<open>max_length\<close> to the
  library unchecked and turns whatever it raises into status 500: with the stand-in
  objects loaded, two texts and \<^verbatim>\<open>max_length = 1\<close>, the tokenizer raises and the call
  returns no vector.
\<close>

theorem embed_batch_fails_at_max_length_1:
  "[''a'', ''abc''] \<noteq> []
   \<and> embed_batch real_mean example_globals \<lparr>texts = [''a'', ''abc''], max_length = Some 1\<rparr> =
       Inl (HTTPException 500 ''max_length is too low for the special tokens'')"
  by (simp add: embed_batch_def generate_batch_embeddings_def example_globals_def
      example_tokenizer_def)

text \<open>
  Claim C2, amended. Let the loaded tokenizer encode one row per text, row \<open>i\<close> being
  determined by text \<open>i\<close>, \<^verbatim>\<open>max_length\<close> and the padded width of the batch (\<open>ids_of\<close>,
  \<open>mask_of\<close>), and let the loaded model return one hidden row per input row, of hidden
  size \<open>H\<close>, row \<open>b\<close> being determined by input row \<open>b\<close> (\<open>hidden\<close>). Then for every
  ordered list of \<open>N \<ge> 1\<close> texts for which tokenization and the forward pass return,
  \<^verbatim>\<open>POST /embed/batch\<close> returns exactly \<open>N\<close> vectors, the \<open>i\<close>-th being the pooled vector
  of the \<open>i\<close>-th text: the list of vectors is one function of a single text mapped over
  the texts in their order. \<^verbatim>\<open>count\<close> is \<open>N\<close> and \<^verbatim>\<open>dimension\<close> is \<open>H\<close>.
\<close>

theorem embed_batch_vectors_follow_texts:
  assumes "globals.model g = Some m" and "tokenizer g = Some tok"
    and row_per_text:
      "\<forall>txts ml e. tok txts ml = Inr e \<longrightarrow>
         length (input_ids e) = length txts
         \<and> (\<forall>i<length txts.
               input_ids e ! i = ids_of (txts ! i) ml (length (hd (input_ids e)))
               \<and> attention_mask e ! i = mask_of (txts ! i) ml (length (hd (input_ids e))))"
    and row_wise:
      "\<forall>e out. m e = Inr out \<longrightarrow>
         size0 (last_hidden_state out) = length (input_ids e)
         \<and> size2 (last_hidden_state out) = H
         \<and> (\<forall>b<length (input_ids e). \<forall>s h.
               item3 (last_hidden_state out) b s h =
                 hidden (input_ids e ! b) (attention_mask e ! b) s h)"
    and "texts r \<noteq> []"
    and "tok (texts r) (BatchEmbeddingRequest.max_length r) = Inr enc"
    and "m enc = Inr out"
  shows "\<exists>resp. embed_batch mean g r = Inr resp
           \<and> length (embeddings resp) = length (texts r)
           \<and> embeddings resp =
               map (\<lambda>t. map (\<lambda>h. mean (map (\<lambda>s.
                       hidden (ids_of t (BatchEmbeddingRequest.max_length r)
                                 (length (hd (input_ids enc))))
                              (mask_of t (BatchEmbeddingRequest.max_length r)
                                 (length (hd (input_ids enc)))) s h)
                       [0..<size1 (last_hidden_state out)])) [0..<H])
                 (texts r)
           \<and> count resp = int (length (texts r))
           \<and> BatchEmbeddingResponse.dimension resp = int H"
proof -
  let ?ml = "BatchEmbeddingRequest.max_length r"
  let ?t = "last_hidden_state out"
  let ?w = "length (hd (input_ids enc))"
  let ?F = "\<lambda>t. map (\<lambda>h. mean (map (\<lambda>s. hidden (ids_of t ?ml ?w) (mask_of t ?ml ?w) s h)
               [0..<size1 ?t])) [0..<H]"
  let ?N = "length (texts r)"
  from row_per_text assms(6)
  have len: "length (input_ids enc) = ?N"
    and rows: "\<forall>i<?N. input_ids enc ! i = ids_of (texts r ! i) ?ml ?w
                     \<and> attention_mask enc ! i = mask_of (texts r ! i) ?ml ?w"
    by blast+
  from row_wise assms(7)
  have s0: "size0 ?t = length (input_ids enc)" and s2: "size2 ?t = H"
    and items: "\<forall>b<length (input_ids enc). \<forall>s h.
        item3 ?t b s h = hidden (input_ids enc ! b) (attention_mask enc ! b) s h"
    by blast+
  have pos: "0 < ?N" using assms(5) by simp
  have gen: "generate_batch_embeddings mean g (texts r) ?ml = Inr (tolist (mean_dim1 mean ?t))"
    by (rule generate_batch_embeddings_loaded [OF assms(1,2,6,7)])
  have "tolist (mean_dim1 mean ?t) = map (\<lambda>i. ?F (texts r ! i)) [0..<?N]"
    using s0 s2 len rows items by (simp add: tolist_mean_dim1)
  also have "\<dots> = map ?F (map (\<lambda>i. texts r ! i) [0..<?N])"
    by (simp add: comp_def)
  also have "\<dots> = map ?F (texts r)"
    by (simp only: map_nth)
  finally have vecs: "tolist (mean_dim1 mean ?t) = map ?F (texts r)" .
  obtain t0 ts where cons: "texts r = t0 # ts"
    using assms(5) by (cases "texts r") auto
  show ?thesis
    using gen assms(5) by (simp add: embed_batch_def vecs) (simp add: cons)
qed

text \<open>
  The stand-ins meet both conditions. Two texts of different lengths: the shorter row is
  padded to five tokens, and the two vectors come back in the order of the texts.
\<close>

theorem embed_batch_vectors_follow_texts_witness:
  "embed_batch real_mean example_globals \<lparr>texts = [''a'', ''abc''], max_length = Some 512\<rparr> =
     Inr \<lparr>embeddings = [[101 / 5, 3 / 5], [296 / 5, 1]], dimension = 2, count = 2\<rparr>"
proof -
  let ?r = "\<lparr>texts = [''a'', ''abc''], max_length = Some 512\<rparr>"
  let ?enc = "\<lparr>input_ids = [[0, 97, 2, 1, 1], [0, 97, 98, 99, 2]],
               attention_mask = [[1, 1, 1, 0, 0], [1, 1, 1, 1, 1]]\<rparr>"
  let ?out = "\<lparr>last_hidden_state =
      \<lparr>size0 = 2, size1 = 5, size2 = 2,
       item3 = (\<lambda>b s h. if h = 0 then real_of_int (input_ids ?enc ! b ! s)
                        else real_of_int (attention_mask ?enc ! b ! s))\<rparr>\<rparr>"
  let ?row = "\<lambda>t ml. 0 # take ((case ml of None \<Rightarrow> 8 | Some n \<Rightarrow> nat n) - 2) (map of_char t) @ [2 :: int]"
  let ?ids_of = "\<lambda>t ml w. ?row t ml @ replicate (w - length (?row t ml)) 1"
  let ?mask_of = "\<lambda>t ml w. replicate (length (?row t ml)) 1 @ replicate (w - length (?row t ml)) (0 :: int)"
  let ?hidden = "\<lambda>(ids :: int list) (mask :: int list) (s :: nat) (h :: nat).
      if h = 0 then real_of_int (ids ! s) else real_of_int (mask ! s)"
  have h1: "globals.model example_globals = Some example_model"
    and h2: "tokenizer example_globals = Some example_tokenizer"
    by (simp_all add: example_globals_def)
  have c1: "\<forall>txts ml e. example_tokenizer txts ml = Inr e \<longrightarrow>
         length (input_ids e) = length txts
         \<and> (\<forall>i<length txts.
               input_ids e ! i = ?ids_of (txts ! i) ml (length (hd (input_ids e)))
               \<and> attention_mask e ! i = ?mask_of (txts ! i) ml (length (hd (input_ids e))))"
  proof (intro allI impI)
    fix txts ml e
    assume ok: "example_tokenizer txts ml = Inr e"
    define rowf where "rowf = (\<lambda>t. ?row t ml)"
    define W where "W = fold max (map length (map rowf txts)) 0"
    from ok have ids: "input_ids e = map (\<lambda>r. r @ replicate (W - length r) 1) (map rowf txts)"
      and mask: "attention_mask e =
        map (\<lambda>r. replicate (length r) 1 @ replicate (W - length r) 0) (map rowf txts)"
      by (auto simp: example_tokenizer_def Let_def rowf_def W_def split: if_splits)
    have wide: "length (rowf t) \<le> W" if "t \<in> set txts" for t
      unfolding W_def by (rule fold_max_ge_member) (use that in auto)
    have hdw: "length (hd (input_ids e)) = W" if "i < length txts" for i
    proof -
      from that obtain t0 ts where cons: "txts = t0 # ts" by (cases txts) auto
      then have "length (rowf t0) \<le> W" using wide [of t0] by simp
      moreover have "hd (input_ids e) = rowf t0 @ replicate (W - length (rowf t0)) 1"
        by (simp add: ids cons)
      ultimately show ?thesis by simp
    qed
    have row_i: "input_ids e ! i = rowf (txts ! i) @ replicate (W - length (rowf (txts ! i))) 1"
      and mask_i: "attention_mask e ! i =
        replicate (length (rowf (txts ! i))) 1 @ replicate (W - length (rowf (txts ! i))) 0"
      if "i < length txts" for i
      using that by (simp_all add: ids mask)
    show "length (input_ids e) = length txts
         \<and> (\<forall>i<length txts.
               input_ids e ! i = ?ids_of (txts ! i) ml (length (hd (input_ids e)))
               \<and> attention_mask e ! i = ?mask_of (txts ! i) ml (length (hd (input_ids e))))"
    proof (intro conjI allI impI)
      show "length (input_ids e) = length txts" by (simp add: ids)
    next
      fix i assume i: "i < length txts"
      show "input_ids e ! i = ?ids_of (txts ! i) ml (length (hd (input_ids e)))"
        unfolding hdw [OF i] row_i [OF i] by (simp only: rowf_def)
    next
      fix i assume i: "i < length txts"
      show "attention_mask e ! i = ?mask_of (txts ! i) ml (length (hd (input_ids e)))"
        unfolding hdw [OF i] mask_i [OF i] by (simp only: rowf_def)
    qed
  qed
  have c2: "\<forall>e out. example_model e = Inr out \<longrightarrow>
         size0 (last_hidden_state out) = length (input_ids e)
         \<and> size2 (last_hidden_state out) = 2
         \<and> (\<forall>b<length (input_ids e). \<forall>s h.
               item3 (last_hidden_state out) b s h =
                 ?hidden (input_ids e ! b) (attention_mask e ! b) s h)"
    by (auto simp: example_model_def split: if_splits)
  have h3: "texts ?r \<noteq> []" by simp
  have h4: "example_tokenizer (texts ?r) (BatchEmbeddingRequest.max_length ?r) = Inr ?enc"
    by (simp add: example_tokenizer_def Let_def)
  have h5: "example_model ?enc = Inr ?out"
    by (simp add: example_model_def)
  from embed_batch_vectors_follow_texts [OF h1 h2 c1 c2 h3 h4 h5, of real_mean]
  obtain resp where "embed_batch real_mean example_globals ?r = Inr resp"
    and "embeddings resp = [[101 / 5, 3 / 5], [296 / 5, 1]]" and "count resp = 2"
    and "BatchEmbeddingResponse.dimension resp = 2"
    by (auto simp: real_mean_def numeral_2_eq_2 eval_nat_numeral)
  then show ?thesis by simp
qed

text \<open>
  Claim C3. An empty list gets the empty response with \<^verbatim>\<open>count\<close> 0 without a call of
  the tokenizer or the model, and its \<^verbatim>\<open>dimension\<close> should be the loaded model's hidden
  size. The handler writes the constant 768 instead: with the stand-in encoder of hidden
  size 2 loaded, the empty batch reports 768 and a batch of one text reports 2.
\<close>

theorem empty_batch_reports_768:
  "embed_batch real_mean example_globals \<lparr>texts = [], max_length = Some 512\<rparr> =
     Inr \<lparr>embeddings = [], dimension = 768, count = 0\<rparr>
   \<and> embed_batch real_mean example_globals \<lparr>texts = [''a''], max_length = Some 512\<rparr> =
     Inr \<lparr>embeddings = [[33, 1]], dimension = 2, count = 1\<rparr>"
  by (simp add: embed_batch_def generate_batch_embeddings_def example_defs)

section \<open>Before the model is loaded\<close>

text \<open>
  Claim C4. While the model or tokenizer is not loaded, \<^verbatim>\<open>/embed\<close>, \<^verbatim>\<open>/embed/batch\<close>
  and \<^verbatim>\<open>/health\<close> should all fail with the service-unavailable condition.
  \<^verbatim>\<open>health_check\<close> does, with status 503. In the two inference handlers the
  \<^verbatim>\<open>RuntimeError\<close> that \<^verbatim>\<open>generate_embedding\<close> and \<^verbatim>\<open>generate_batch_embeddings\<close> raise
  for the same condition is caught by \<^verbatim>\<open>except Exception\<close> and leaves as status 500:
  with the globals as the module initialises them, \<^verbatim>\<open>/embed\<close> and \<^verbatim>\<open>/embed/batch\<close>
  answer 500 where \<^verbatim>\<open>/health\<close> answers 503.
\<close>

theorem not_loaded_inference_answers_500:
  "embed_text real_mean initial_globals \<lparr>text = ''a'', max_length = Some 512\<rparr> =
     Inl (HTTPException 500 ''Model not loaded'')
   \<and> embed_batch real_mean initial_globals \<lparr>texts = [''a''], max_length = Some 512\<rparr> =
     Inl (HTTPException 500 ''Model not loaded'')
   \<and> health_check real_mean initial_globals = Inl (HTTPException 503 ''Model not loaded'')"
  by (simp add: embed_text_def embed_batch_def health_check_def generate_embedding_def
      generate_batch_embeddings_def initial_globals_def)

section \<open>Failures of the library\<close>

text \<open>
  Claim C5. With the model and tokenizer loaded, an exception (an instance of
  \<^verbatim>\<open>Exception\<close>) raised by the tokenizer, or by the model's forward pass after the
  tokenizer returned, leaves \<^verbatim>\<open>/embed\<close> and \<^verbatim>\<open>/embed/batch\<close> as an \<^verbatim>\<open>HTTPException\<close>
  of status 500 whose detail is \<^verbatim>\<open>str\<close> of that exception; it never leaves the handler
  uncaught.
\<close>

theorem inference_failure_is_internal_error:
  assumes "globals.model g = Some m" and "tokenizer g = Some tok"
  shows "(tok [text r1] (EmbeddingRequest.max_length r1) = Inl e1 \<longrightarrow>
            embed_text mean g r1 = Inl (HTTPException 500 (str_exception e1)))
       \<and> (tok [text r2] (EmbeddingRequest.max_length r2) = Inr enc2 \<and> m enc2 = Inl e2 \<longrightarrow>
            embed_text mean g r2 = Inl (HTTPException 500 (str_exception e2)))
       \<and> (texts b3 \<noteq> [] \<and> tok (texts b3) (BatchEmbeddingRequest.max_length b3) = Inl e3 \<longrightarrow>
            embed_batch mean g b3 = Inl (HTTPException 500 (str_exception e3)))
       \<and> (texts b4 \<noteq> [] \<and> tok (texts b4) (BatchEmbeddingRequest.max_length b4) = Inr enc4
            \<and> m enc4 = Inl e4 \<longrightarrow>
            embed_batch mean g b4 = Inl (HTTPException 500 (str_exception e4)))"
  using assms
  by (simp add: embed_text_def embed_batch_def generate_embedding_def
      generate_batch_embeddings_def)

text \<open>
  The stand-in tokenizer raises on \<^verbatim>\<open>max_length=1\<close>; the stand-in encoder raises on the
  ten tokens of an eight-character text.
\<close>

theorem inference_failure_is_internal_error_witness:
  "embed_text real_mean example_globals \<lparr>text = ''abcdefgh'', max_length = Some 1\<rparr> =
     Inl (HTTPException 500 ''max_length is too low for the special tokens'')
   \<and> embed_text real_mean example_globals \<lparr>text = ''abcdefgh'', max_length = Some 20\<rparr> =
     Inl (HTTPException 500 ''index out of range in self'')
   \<and> embed_batch real_mean example_globals
       \<lparr>texts = [''a'', ''abcdefgh''], max_length = Some 1\<rparr> =
     Inl (HTTPException 500 ''max_length is too low for the special tokens'')
   \<and> embed_batch real_mean example_globals
       \<lparr>texts = [''a'', ''abcdefgh''], max_length = Some 20\<rparr> =
     Inl (HTTPException 500 ''index out of range in self'')"
proof -
  let ?r1 = "\<lparr>text = ''abcdefgh'', max_length = Some 1\<rparr>"
  let ?r2 = "\<lparr>text = ''abcdefgh'', max_length = Some 20\<rparr>"
  let ?b3 = "\<lparr>texts = [''a'', ''abcdefgh''], max_length = Some 1\<rparr>"
  let ?b4 = "\<lparr>texts = [''a'', ''abcdefgh''], max_length = Some 20\<rparr>"
  let ?e1 = "LibraryError ''max_length is too low for the special tokens''"
  let ?e2 = "IndexError ''index out of range in self''"
  let ?enc2 = "\<lparr>input_ids = [[0, 97, 98, 99, 100, 101, 102, 103, 104, 2]],
                attention_mask = [[1, 1, 1, 1, 1, 1, 1, 1, 1, 1]]\<rparr>"
  let ?enc4 = "\<lparr>input_ids = [[0, 97, 2, 1, 1, 1, 1, 1, 1, 1],
                             [0, 97, 98, 99, 100, 101, 102, 103, 104, 2]],
                attention_mask = [[1, 1, 1, 0, 0, 0, 0, 0, 0, 0],
                                  [1, 1, 1, 1, 1, 1, 1, 1, 1, 1]]\<rparr>"
  have h1: "globals.model example_globals = Some example_model"
    and h2: "tokenizer example_globals = Some example_tokenizer"
    by (simp_all add: example_globals_def)
  have a1: "example_tokenizer [text ?r1] (EmbeddingRequest.max_length ?r1) = Inl ?e1"
    by (simp add: example_tokenizer_def)
  have a2: "example_tokenizer [text ?r2] (EmbeddingRequest.max_length ?r2) = Inr ?enc2"
    by (simp add: example_tokenizer_def Let_def)
  have a2': "example_model ?enc2 = Inl ?e2"
    by (simp add: example_model_def)
  have a3: "texts ?b3 \<noteq> []"
    and a3': "example_tokenizer (texts ?b3) (BatchEmbeddingRequest.max_length ?b3) = Inl ?e1"
    by (simp_all add: example_tokenizer_def)
  have a4: "texts ?b4 \<noteq> []"
    and a4': "example_tokenizer (texts ?b4) (BatchEmbeddingRequest.max_length ?b4) = Inr ?enc4"
    by (simp_all add: example_tokenizer_def Let_def)
  have a4'': "example_model ?enc4 = Inl ?e2"
    by (simp add: example_model_def)
  from inference_failure_is_internal_error [OF h1 h2,
      of ?r1 ?e1 real_mean ?r2 ?enc2 ?e2 ?b3 ?e1 ?b4 ?enc4 ?e2]
    a1 a2 a2' a3 a3' a4 a4' a4''
  show ?thesis by simp
qed

section \<open>The reported dimension and model name\<close>

text \<open>
  Claim C7. The dimension \<^verbatim>\<open>/health\<close> reports should equal the \<^verbatim>\<open>dimension\<close> of every
  \<^verbatim>\<open>/embed\<close> and \<^verbatim>\<open>/embed/batch\<close> response, the empty batch included. With the stand-in
  encoder of hidden size 2 loaded, \<^verbatim>\<open>/health\<close> reports 2 and the empty batch reports the
  constant 768.
\<close>

theorem health_and_empty_batch_dimensions_differ:
  "map_sum id HealthResponse.dimension (health_check real_mean example_globals) = Inr 2
   \<and> map_sum id BatchEmbeddingResponse.dimension
       (embed_batch real_mean example_globals \<lparr>texts = [], max_length = Some 512\<rparr>) = Inr 768"
  by (simp add: health_check_def generate_embedding_def embed_batch_def example_defs)

text \<open>
  Claim C8. \<^verbatim>\<open>/health\<close> should report the identifier of the model that was loaded.
  \<^verbatim>\<open>load_model\<close> loads the model that \<^verbatim>\<open>MODEL_NAME\<close> names, and \<^verbatim>\<open>health_check\<close> writes
  the constant \<^verbatim>\<open>microsoft/codebert-base\<close>: with \<^verbatim>\<open>MODEL_NAME=example/tiny-encoder\<close>
  the stand-ins are loaded on the CPU and \<^verbatim>\<open>/health\<close> names the default model.
\<close>

theorem health_reports_fixed_model_name:
  "getenv example_platform ''MODEL_NAME'' ''microsoft/codebert-base'' = ''example/tiny-encoder''
   \<and> load_model example_platform initial_globals = (None, example_globals)
   \<and> health_check real_mean example_globals =
       Inr \<lparr>status = ''healthy'', model = ''microsoft/codebert-base'', device = ''cpu'',
            dimension = 2\<rparr>"
  by (simp add: load_model_def getenv_def example_platform_def initial_globals_def
      health_check_def generate_embedding_def str_device_def example_defs)

section \<open>Padding\<close>

text \<open>
  Claim C9. The pooled vector of a text should not depend on padding. Both inference
  functions take the mean over every sequence position, padding included, and never read
  the attention mask: the text \<open>''a''\<close> alone pools to (33, 1), and in a batch with
  \<open>''abc''\<close>, where its row is padded from three to five tokens, to (101/5, 3/5).
\<close>

theorem padding_changes_pooled_vector:
  "generate_embedding real_mean example_globals ''a'' (Some 512) = Inr [33, 1]
   \<and> generate_batch_embeddings real_mean example_globals [''a'', ''abc''] (Some 512) =
       Inr [[101 / 5, 3 / 5], [296 / 5, 1]]
   \<and> map_sum id hd
         (generate_batch_embeddings real_mean example_globals [''a'', ''abc''] (Some 512)) \<noteq>
       generate_embedding real_mean example_globals ''a'' (Some 512)"
  by (simp add: generate_embedding_def generate_batch_embeddings_def example_defs)

section \<open>The root endpoint\<close>

text \<open>
  Claim C10. \<^verbatim>\<open>GET /\<close> returns the same fixed map of service name, version and endpoint
  paths whatever the globals hold, loaded or not; it has no failing branch.
\<close>

theorem root_is_constant:
  "app mean g GET_root =
     Inr (Root_response
       \<lparr>service = ''CodeBERT Embedding Service'', version = ''1.0.0'',
        endpoints = [(''health'', ''/health''), (''embed'', ''/embed''),
                     (''embed_batch'', ''/embed/batch'')]\<rparr>)"
  by (simp add: app_def root_def)

end
